theory Spec2Isabelle
  imports Complex_Main
begin

section \<open>JavaScript values\<close>

text \<open>
  A JavaScript \<open>number\<close> is a finite value, one of the two infinities, or NaN.  Finite
  values are modelled by exact reals: rounding is abstracted, while the special values and
  their comparison rules are kept, since the code's clamps and thresholds depend on them.
\<close>

datatype number = Fin real | PosInf | NegInf | NaN

fun js_lt :: "number \<Rightarrow> number \<Rightarrow> bool" where
  "js_lt NaN _ = False"
| "js_lt _ NaN = False"
| "js_lt (Fin x) (Fin y) = (x < y)"
| "js_lt _ NegInf = False"
| "js_lt NegInf _ = True"
| "js_lt PosInf _ = False"
| "js_lt (Fin _) PosInf = True"

definition js_ge :: "number \<Rightarrow> number \<Rightarrow> bool" where
  "js_ge a b = (a \<noteq> NaN \<and> b \<noteq> NaN \<and> \<not> js_lt a b)"

definition Math_max :: "number \<Rightarrow> number \<Rightarrow> number" where
  "Math_max a b = (if a = NaN \<or> b = NaN then NaN else if js_lt a b then b else a)"

definition Math_min :: "number \<Rightarrow> number \<Rightarrow> number" where
  "Math_min a b = (if a = NaN \<or> b = NaN then NaN else if js_lt b a then b else a)"

text \<open>
  The values \<open>JSON.parse\<close> can produce.  A numeric literal beyond the double range parses
  to an infinity (\<open>1e999\<close>); NaN has no JSON syntax, so it is not a constructor.  An object
  is its list of own properties.
\<close>

datatype json =
    JNull
  | JBool bool
  | JNum real
  | JPosInf
  | JNegInf
  | JStr string
  | JArr "json list"
  | JObj "(string \<times> json) list"

text \<open>A thrown value: an \<open>Error\<close> with its message, or anything else.\<close>

datatype thrown = Error string | NonError

definition error_message :: "thrown \<Rightarrow> string" where
  \<comment> \<open>\<open>error instanceof Error ? error.message : "Unknown error"\<close>\<close>
  "error_message t = (case t of Error m \<Rightarrow> m | NonError \<Rightarrow> ''Unknown error'')"

text \<open>Property read \<open>v.k\<close> on a parsed value; \<open>None\<close> is \<open>undefined\<close>.  Reading a
  property of \<open>null\<close> throws a TypeError.\<close>

definition field :: "json \<Rightarrow> string \<Rightarrow> thrown + json option" where
  "field v k = (case v of
      JNull \<Rightarrow> Inl (Error (''Cannot read properties of null (reading '' @ k @ '')''))
    | JObj kvs \<Rightarrow> Inr (map_of kvs k)
    | _ \<Rightarrow> Inr None)"

definition as_number :: "json option \<Rightarrow> number option" where
  \<comment> \<open>\<open>Some n\<close> exactly when \<open>typeof v === "number"\<close>\<close>
  "as_number v = (case v of
      Some (JNum x) \<Rightarrow> Some (Fin x)
    | Some JPosInf \<Rightarrow> Some PosInf
    | Some JNegInf \<Rightarrow> Some NegInf
    | _ \<Rightarrow> None)"

definition is_boolean :: "json option \<Rightarrow> bool" where
  "is_boolean v = (case v of Some (JBool _) \<Rightarrow> True | _ \<Rightarrow> False)"

definition truthy :: "json option \<Rightarrow> bool" where
  "truthy v = (case v of
      None \<Rightarrow> False
    | Some JNull \<Rightarrow> False
    | Some (JBool b) \<Rightarrow> b
    | Some (JNum x) \<Rightarrow> x \<noteq> 0
    | Some (JStr s) \<Rightarrow> s \<noteq> []
    | Some _ \<Rightarrow> True)"

section \<open>Agent responses and JSON extraction\<close>

text \<open>
  What \<open>agent.generate(prompt)\<close> settles to: it throws, or it replies with an object whose
  \<open>text\<close> may be undefined.  The reply is produced by a remote model, so it is an input of
  every agent function below.
\<close>

datatype agent_response = Threw thrown | Replied "string option"

definition match_object :: "string \<Rightarrow> string option" where
  \<comment> \<open>\<open>text.match(/\{[\s\S]*\}/)\<close>: from the first \<open>{\<close> to the last \<open>}\<close> after it\<close>
  "match_object text =
     (let s = dropWhile (\<lambda>c. c \<noteq> CHR ''{'') text
      in if CHR ''}'' \<in> set s
         then Some (rev (dropWhile (\<lambda>c. c \<noteq> CHR ''}'') (rev s)))
         else None)"

definition extract_json :: "(string \<Rightarrow> thrown + json) \<Rightarrow> agent_response \<Rightarrow> thrown + json" where
  \<comment> \<open>the steps every agent function starts with; \<open>parse\<close> is the library's \<open>JSON.parse\<close>\<close>
  "extract_json parse response =
     (case response of
        Threw t \<Rightarrow> Inl t
      | Replied txt \<Rightarrow>
          (let text = (case txt of None \<Rightarrow> [] | Some t \<Rightarrow> t)
           in case match_object text of
                None \<Rightarrow> Inl (Error ''No valid JSON found in response'')
              | Some m \<Rightarrow> parse m))"

section \<open>String helpers\<close>

text \<open>
  Strings are lists of 8-bit characters: the Latin-1 range of JavaScript's UTF-16 code
  units.  \<open>length\<close> is \<open>.length\<close>, \<open>take n\<close> is \<open>.substring(0, n)\<close>.
\<close>

definition upper_case :: string where
  \<comment> \<open>the capital letters below U+0100: A to Z, and U+00C0 to U+00DE without the
      multiplication sign\<close>
  "upper_case = ''ABCDEFGHIJKLMNOPQRSTUVWXYZ'' @
     [CHR 0xC0, CHR 0xC1, CHR 0xC2, CHR 0xC3, CHR 0xC4, CHR 0xC5, CHR 0xC6, CHR 0xC7,
     CHR 0xC8, CHR 0xC9, CHR 0xCA, CHR 0xCB, CHR 0xCC, CHR 0xCD, CHR 0xCE, CHR 0xCF,
     CHR 0xD0, CHR 0xD1, CHR 0xD2, CHR 0xD3, CHR 0xD4, CHR 0xD5, CHR 0xD6, CHR 0xD8,
     CHR 0xD9, CHR 0xDA, CHR 0xDB, CHR 0xDC, CHR 0xDD, CHR 0xDE]"

definition lower_case :: string where
  "lower_case = ''abcdefghijklmnopqrstuvwxyz'' @
     [CHR 0xE0, CHR 0xE1, CHR 0xE2, CHR 0xE3, CHR 0xE4, CHR 0xE5, CHR 0xE6, CHR 0xE7,
     CHR 0xE8, CHR 0xE9, CHR 0xEA, CHR 0xEB, CHR 0xEC, CHR 0xED, CHR 0xEE, CHR 0xEF,
     CHR 0xF0, CHR 0xF1, CHR 0xF2, CHR 0xF3, CHR 0xF4, CHR 0xF5, CHR 0xF6, CHR 0xF8,
     CHR 0xF9, CHR 0xFA, CHR 0xFB, CHR 0xFC, CHR 0xFD, CHR 0xFE]"

definition toLowerCase_char :: "char \<Rightarrow> char" where
  "toLowerCase_char c = (case map_of (zip upper_case lower_case) c of None \<Rightarrow> c | Some l \<Rightarrow> l)"

definition toLowerCase :: "string \<Rightarrow> string" where
  "toLowerCase s = map toLowerCase_char s"

definition is_space :: "char \<Rightarrow> bool" where
  \<comment> \<open>the characters of \<open>\s\<close> (and of \<open>trim\<close>) below U+0100: TAB, LF, VT, FF, CR, SP, NBSP\<close>
  "is_space c = ((of_char c :: nat) \<in> {9, 10, 11, 12, 13, 32, 160})"

definition trim :: "string \<Rightarrow> string" where
  "trim s = rev (dropWhile is_space (rev (dropWhile is_space s)))"

fun replace_runs :: "(char \<Rightarrow> bool) \<Rightarrow> char \<Rightarrow> bool \<Rightarrow> string \<Rightarrow> string" where
  \<comment> \<open>\<open>.replace(/[class]+/g, r)\<close>: every maximal run of characters of the class becomes one
      \<open>r\<close>; the flag says that the current run has been replaced already\<close>
  "replace_runs P r _ [] = []"
| "replace_runs P r in_run (c # cs) =
     (if P c
      then (if in_run then replace_runs P r True cs else r # replace_runs P r True cs)
      else c # replace_runs P r False cs)"

fun split_comma :: "string \<Rightarrow> string list" where
  \<comment> \<open>\<open>.split(",")\<close>\<close>
  "split_comma [] = [[]]"
| "split_comma (c # cs) =
     (if c = CHR '','' then [] # split_comma cs
      else (case split_comma cs of
              [] \<Rightarrow> [[c]]
            | w # ws \<Rightarrow> (c # w) # ws))"

definition str_includes :: "string \<Rightarrow> string \<Rightarrow> bool" where
  \<comment> \<open>\<open>s.includes(pat)\<close>\<close>
  "str_includes s pat = list_ex (\<lambda>i. take (length pat) (drop i s) = pat) [0..<Suc (length s)]"

definition digit_char :: "nat \<Rightarrow> char" where
  "digit_char d = ''0123456789'' ! d"

function show_nat :: "nat \<Rightarrow> string" where
  \<comment> \<open>decimal rendering of an array length inside a template string\<close>
  "show_nat n = (if n < 10 then [digit_char n] else show_nat (n div 10) @ [digit_char (n mod 10)])"
  by pat_completeness auto
termination
  by (relation "measure id") auto

declare show_nat.simps [simp del]

definition catch_wrap :: "string \<Rightarrow> thrown + 'a \<Rightarrow> thrown + 'a" where
  \<comment> \<open>\<open>catch (error) { throw new Error(`<prefix>${error instanceof Error ? error.message : "Unknown error"}`) }\<close>\<close>
  "catch_wrap prefix r = (case r of Inl t \<Rightarrow> Inl (Error (prefix @ error_message t)) | Inr v \<Rightarrow> Inr v)"

section \<open>Capability payloads\<close>

record Summaries =
  summary_short :: string
  summary_medium :: string
  summary_long :: string

record SEO =
  meta_title :: string
  meta_description :: string
  seo_keywords :: string

record Category =
  category :: string
  confidence :: number
  reasoning :: string

record ImagePrompt =
  image_prompt :: string
  style_notes :: string

text \<open>The second argument of \<open>validateMetadata\<close>.\<close>

record Metadata =
  md_summaries :: Summaries
  md_seo :: SEO
  md_category :: Category
  md_tags :: "string list"
  md_schema :: json
  md_imagePrompt :: ImagePrompt

section \<open>Quality gate: validateMetadata\<close>

record ValidationResult =
  quality_score :: number
  passed :: bool
  validation_report :: json

definition validateMetadata_try ::
  "(string \<Rightarrow> thrown + json) \<Rightarrow> (string \<Rightarrow> Metadata \<Rightarrow> agent_response) \<Rightarrow> string \<Rightarrow> Metadata
     \<Rightarrow> thrown + ValidationResult" where
  \<comment> \<open>the body of the \<open>try\<close> block; \<open>generate\<close> is \<open>validatorAgent.generate\<close>, which sees the
      first 2000 characters of the document and the metadata through the prompt\<close>
  "validateMetadata_try parse generate originalContent metadata =
     (case extract_json parse (generate (take 2000 originalContent) metadata) of
        Inl t \<Rightarrow> Inl t
      | Inr result \<Rightarrow>
          (case field result ''quality_score'' of
             Inl t \<Rightarrow> Inl t
           | Inr qs \<Rightarrow>
          (case field result ''passed'' of
             Inl t \<Rightarrow> Inl t
           | Inr p \<Rightarrow>
          (case field result ''validation_report'' of
             Inl t \<Rightarrow> Inl t
           | Inr vr \<Rightarrow>
               (case (as_number qs, vr) of
                  (Some q, Some report) \<Rightarrow>
                    if \<not> is_boolean p \<or> \<not> truthy vr
                    then Inl (Error ''Invalid validation response structure'')
                    else
                      (let score = Math_min (Math_max q (Fin 0)) (Fin 100)
                       in Inr \<lparr> quality_score = score,
                                passed = js_ge score (Fin 70),
                                validation_report = report \<rparr>)
                | _ \<Rightarrow> Inl (Error ''Invalid validation response structure''))))))"

definition validateMetadata ::
  "(string \<Rightarrow> thrown + json) \<Rightarrow> (string \<Rightarrow> Metadata \<Rightarrow> agent_response) \<Rightarrow> string \<Rightarrow> Metadata
     \<Rightarrow> thrown + ValidationResult" where
  "validateMetadata parse generate originalContent metadata =
     catch_wrap ''Failed to validate metadata: ''
       (validateMetadata_try parse generate originalContent metadata)"

section \<open>Tagging: generateTags\<close>

definition tag_format :: "string \<Rightarrow> bool" where
  \<comment> \<open>\<open>/^[a-z0-9-]+$/.test(tag)\<close>\<close>
  "tag_format tag =
     (tag \<noteq> [] \<and> (\<forall>c \<in> set tag. c \<in> set ''abcdefghijklmnopqrstuvwxyz0123456789-''))"

fun normalize_each :: "json list \<Rightarrow> thrown + string list" where
  \<comment> \<open>\<open>.map((tag) => tag.toLowerCase().trim())\<close>: an entry that is not a string has no
      \<open>toLowerCase\<close>, and the call throws a TypeError\<close>
  "normalize_each [] = Inr []"
| "normalize_each (JStr tag # rest) =
     (case normalize_each rest of
        Inl t \<Rightarrow> Inl t
      | Inr tags \<Rightarrow> Inr (trim (toLowerCase tag) # tags))"
| "normalize_each (JNull # rest) =
     Inl (Error ''Cannot read properties of null (reading toLowerCase)'')"
| "normalize_each (_ # rest) = Inl (Error ''tag.toLowerCase is not a function'')"

definition tags_prompt :: "string \<Rightarrow> string" where
  "tags_prompt markdownContent =
     ''Analyze this markdown content and generate relevant tags:'' @ [CHR 0x0A, CHR 0x0A]
       @ markdownContent"

definition generateTags_try ::
  "(string \<Rightarrow> thrown + json) \<Rightarrow> (string \<Rightarrow> agent_response) \<Rightarrow> string \<Rightarrow> thrown + string list" where
  \<comment> \<open>the body of the \<open>try\<close> block; \<open>generate\<close> is \<open>tagsAgent.generate\<close>\<close>
  "generateTags_try parse generate markdownContent =
     (case extract_json parse (generate (tags_prompt markdownContent)) of
        Inl t \<Rightarrow> Inl t
      | Inr result \<Rightarrow>
          (case field result ''tags'' of
             Inl t \<Rightarrow> Inl t
           | Inr (Some (JArr tags)) \<Rightarrow>
               if length tags < 3 then Inl (Error ''Must have at least 3 tags'')
               else
                 (let tags' = (if length tags > 5 then take 5 tags else tags)
                  in case normalize_each tags' of
                       Inl t \<Rightarrow> Inl t
                     | Inr lowered \<Rightarrow>
                         (let normalizedTags =
                                filter (\<lambda>tag. length tag > 0 \<and> tag_format tag) lowered
                          in if length normalizedTags < 3
                             then Inl (Error ''Not enough valid tags after normalization'')
                             else Inr (take 5 normalizedTags)))
           | Inr _ \<Rightarrow> Inl (Error ''Tags must be an array'')))"

definition generateTags ::
  "(string \<Rightarrow> thrown + json) \<Rightarrow> (string \<Rightarrow> agent_response) \<Rightarrow> string \<Rightarrow> thrown + string list" where
  "generateTags parse generate markdownContent =
     catch_wrap ''Failed to generate tags: '' (generateTags_try parse generate markdownContent)"

section \<open>Embedding: generateEmbeddings and cosineSimilarity\<close>

text \<open>
  The module keeps one lazily created client; \<open>OPENAI_API_KEY\<close> is read from the process
  environment when the client is first needed.
\<close>

record openai_env =
  openaiClient :: bool
  OPENAI_API_KEY :: "string option"

definition getOpenAIClient :: "openai_env \<Rightarrow> thrown + openai_env" where
  "getOpenAIClient env =
     (if \<not> openaiClient env
      then (case OPENAI_API_KEY env of
              None \<Rightarrow> Inl (Error ''OPENAI_API_KEY environment variable is required for embeddings generation'')
            | Some apiKey \<Rightarrow>
                if apiKey = []
                then Inl (Error ''OPENAI_API_KEY environment variable is required for embeddings generation'')
                else Inr (env\<lparr>openaiClient := True\<rparr>))
      else Inr env)"

text \<open>
  What \<open>client.embeddings.create\<close> settles to: it throws, or it returns a response whose
  \<open>data\<close> array holds, per item, the value of its \<open>embedding\<close> property (\<open>None\<close> when the
  property is missing).  The values come from the provider's JSON.
\<close>

datatype embeddings_reply = CreateThrew thrown | Created "json option list"

definition embeddings_catch :: "thrown \<Rightarrow> thrown" where
  \<comment> \<open>the \<open>catch\<close> block of \<open>generateEmbeddings\<close>\<close>
  "embeddings_catch error =
     (case error of
        Error message \<Rightarrow>
          if str_includes message ''API key''
          then Error ''OpenAI API key is invalid or missing. Please check your OPENAI_API_KEY environment variable.''
          else if str_includes message ''rate limit''
          then Error ''OpenAI API rate limit exceeded. Please try again later.''
          else if str_includes message ''quota''
          then Error ''OpenAI API quota exceeded. Please check your billing settings.''
          else Error (''Failed to generate embeddings: '' @ message)
      | NonError \<Rightarrow> Error (''Failed to generate embeddings: '' @ ''Unknown error''))"

definition generateEmbeddings ::
  "openai_env \<Rightarrow> (string \<Rightarrow> embeddings_reply) \<Rightarrow> string \<Rightarrow> (thrown + json list) \<times> openai_env" where
  \<comment> \<open>\<open>create\<close> is \<open>client.embeddings.create\<close> with the fixed model and encoding format\<close>
  "generateEmbeddings env create markdownContent =
     (case getOpenAIClient env of
        Inl t \<Rightarrow> (Inl (embeddings_catch t), env)
      | Inr env' \<Rightarrow>
          (let cleanedContent = take 30000 (trim (replace_runs is_space (CHR '' '') False markdownContent))
           in if cleanedContent = []
              then (Inl (embeddings_catch (Error ''Content is empty after cleaning'')), env')
              else
                (case create cleanedContent of
                   CreateThrew t \<Rightarrow> (Inl (embeddings_catch t), env')
                 | Created data \<Rightarrow>
                     (case (case data of [] \<Rightarrow> None | first # _ \<Rightarrow> first) of
                        Some (JArr embedding) \<Rightarrow>
                          if length embedding \<noteq> 3072
                          then (Inl (embeddings_catch (Error (''Unexpected embedding dimensions: ''
                                       @ show_nat (length embedding) @ '' (expected 3072)''))), env')
                          else (Inr embedding, env')
                      | _ \<Rightarrow>
                          (Inl (embeddings_catch (Error ''Invalid embedding response from OpenAI'')),
                           env')))))"





section \<open>Cost table and estimateProcessingCost\<close>

datatype capability =
  C_summary | C_seo | C_category | C_tags | C_schema | C_imagePrompt | C_embeddings | C_validator

fun COST_ESTIMATES :: "capability \<Rightarrow> real" where
  "COST_ESTIMATES C_summary = 0.001"
| "COST_ESTIMATES C_seo = 0.002"
| "COST_ESTIMATES C_category = 0.003"
| "COST_ESTIMATES C_tags = 0.003"
| "COST_ESTIMATES C_schema = 0.02"
| "COST_ESTIMATES C_imagePrompt = 0.01"
| "COST_ESTIMATES C_embeddings = 0.013"
| "COST_ESTIMATES C_validator = 0.02"

definition COST_ESTIMATES_keys :: "capability list" where
  \<comment> \<open>the keys of the object literal, in the order \<open>Object.values\<close> visits them\<close>
  "COST_ESTIMATES_keys =
     [C_summary, C_seo, C_category, C_tags, C_schema, C_imagePrompt, C_embeddings, C_validator]"

record CostEstimate =
  total :: real
  perModule :: real
  breakdown :: "capability \<Rightarrow> real"

definition estimateProcessingCost :: "real \<Rightarrow> CostEstimate" where
  "estimateProcessingCost contentCount =
     (let perModuleCost = foldl (\<lambda>sum cost. sum + cost) 0 (map COST_ESTIMATES COST_ESTIMATES_keys)
      in \<lparr> total = perModuleCost * contentCount,
           perModule = perModuleCost,
           breakdown = COST_ESTIMATES \<rparr>)"

section \<open>Phase orchestrator: processMarkdownWithAI\<close>

text \<open>Fields of \<open>AIPipelineResult\<close>, prefixed with \<open>ai_\<close>.\<close>

record AIPipelineResult =
  ai_summary_short :: string
  ai_summary_medium :: string
  ai_summary_long :: string
  ai_meta_title :: string
  ai_meta_description :: string
  ai_seo_keywords :: string
  ai_category :: string
  ai_category_confidence :: number
  ai_tags :: "string list"
  ai_schema_json :: json
  ai_image_prompt :: string
  ai_embedding :: "json list"
  ai_quality_score :: number
  ai_validation_report :: json
  ai_processing_time_ms :: int
  ai_estimated_cost_usd :: real

text \<open>
  Everything the orchestrator reaches outside its own module.  The five agent functions whose
  bodies no property below depends on are taken as they are imported; for the other three the
  remote calls they make are the collaborators.  \<open>phase1_settled\<close> and \<open>phase2_settled\<close>
  give the order (as array indices) in which the promises of a \<open>Promise.all\<close> settle, and
  \<open>startTime\<close>, \<open>endTime\<close> are the two readings of \<open>Date.now()\<close> that make
  \<open>processing_time_ms\<close>.
\<close>

record collaborators =
  generateSummaries :: "string \<Rightarrow> thrown + Summaries"
  generateSEOMetadata :: "string \<Rightarrow> thrown + SEO"
  categorizeContent :: "string \<Rightarrow> thrown + Category"
  tagsAgent_generate :: "string \<Rightarrow> agent_response"
  generateSchemaOrgData :: "string \<Rightarrow> thrown + json"
  generateImagePrompt :: "string \<Rightarrow> thrown + ImagePrompt"
  embeddings_create :: "string \<Rightarrow> embeddings_reply"
  validatorAgent_generate :: "string \<Rightarrow> Metadata \<Rightarrow> agent_response"
  JSON_parse :: "string \<Rightarrow> thrown + json"
  phase1_settled :: "nat list"
  phase2_settled :: "nat list"
  startTime :: int
  endTime :: int

definition rejection :: "thrown + 'a \<Rightarrow> thrown option" where
  "rejection p = (case p of Inl t \<Rightarrow> Some t | Inr _ \<Rightarrow> None)"

definition first_rejection :: "nat list \<Rightarrow> thrown option list \<Rightarrow> thrown option" where
  \<comment> \<open>the reason \<open>Promise.all\<close> rejects with: that of the promise that rejects first; promises
      the settling order does not mention settle after the others, in array order\<close>
  "first_rejection settled rs =
     (case filter (\<lambda>i. i < length rs \<and> rs ! i \<noteq> None) (settled @ [0..<length rs]) of
        [] \<Rightarrow> None
      | i # _ \<Rightarrow> rs ! i)"

definition Promise_all4 ::
  "nat list \<Rightarrow> thrown + 'a \<Rightarrow> thrown + 'b \<Rightarrow> thrown + 'c \<Rightarrow> thrown + 'd \<Rightarrow> thrown + ('a \<times> 'b \<times> 'c \<times> 'd)" where
  "Promise_all4 settled a b c d =
     (case (a, b, c, d) of
        (Inr w, Inr x, Inr y, Inr z) \<Rightarrow> Inr (w, x, y, z)
      | _ \<Rightarrow> (case first_rejection settled [rejection a, rejection b, rejection c, rejection d] of
                Some t \<Rightarrow> Inl t
              | None \<Rightarrow> Inl NonError))"

definition Promise_all3 ::
  "nat list \<Rightarrow> thrown + 'a \<Rightarrow> thrown + 'b \<Rightarrow> thrown + 'c \<Rightarrow> thrown + ('a \<times> 'b \<times> 'c)" where
  "Promise_all3 settled a b c =
     (case (a, b, c) of
        (Inr x, Inr y, Inr z) \<Rightarrow> Inr (x, y, z)
      | _ \<Rightarrow> (case first_rejection settled [rejection a, rejection b, rejection c] of
                Some t \<Rightarrow> Inl t
              | None \<Rightarrow> Inl NonError))"

text \<open>
  One run: what the caller gets, the agent functions that were called (in call order), the
  value of the local \<open>totalCost\<close> when the run ended, and the embedding client's state.
\<close>

record Run =
  outcome :: "thrown + AIPipelineResult"
  invoked :: "capability list"
  totalCost :: real
  openai :: openai_env

definition pipeline_failed :: "thrown \<Rightarrow> capability list \<Rightarrow> real \<Rightarrow> openai_env \<Rightarrow> Run" where
  \<comment> \<open>the outer \<open>catch\<close> block\<close>
  "pipeline_failed error called cost env =
     \<lparr> outcome = Inl (Error (''AI Pipeline failed: '' @ error_message error)),
       invoked = called, totalCost = cost, openai = env \<rparr>"

definition processMarkdownWithAI :: "collaborators \<Rightarrow> openai_env \<Rightarrow> string \<Rightarrow> Run" where
  "processMarkdownWithAI co env markdownContent =
     (let phase1 = [C_summary, C_seo, C_category, C_tags];
          phase2 = [C_schema, C_imagePrompt, C_embeddings]
      in case Promise_all4 (phase1_settled co)
                (generateSummaries co markdownContent)
                (generateSEOMetadata co markdownContent)
                (categorizeContent co markdownContent)
                (generateTags (JSON_parse co) (tagsAgent_generate co) markdownContent) of
           Inl error \<Rightarrow> pipeline_failed error phase1 0 env
         | Inr (summaries, seo, categoryResult, tags) \<Rightarrow>
             (let cost1 = 0 + (COST_ESTIMATES C_summary + COST_ESTIMATES C_seo
                               + COST_ESTIMATES C_category + COST_ESTIMATES C_tags);
                  (embedded, env') = generateEmbeddings env (embeddings_create co) markdownContent
              in case Promise_all3 (phase2_settled co)
                        (generateSchemaOrgData co markdownContent)
                        (generateImagePrompt co markdownContent)
                        embedded of
                   Inl error \<Rightarrow> pipeline_failed error (phase1 @ phase2) cost1 env'
                 | Inr (schema, imagePrompt, embedding) \<Rightarrow>
                     (let cost2 = cost1 + (COST_ESTIMATES C_schema + COST_ESTIMATES C_imagePrompt
                                           + COST_ESTIMATES C_embeddings)
                      in case validateMetadata (JSON_parse co) (validatorAgent_generate co)
                                markdownContent
                                \<lparr> md_summaries = summaries, md_seo = seo,
                                  md_category = categoryResult, md_tags = tags,
                                  md_schema = schema, md_imagePrompt = imagePrompt \<rparr> of
                           Inl error \<Rightarrow>
                             pipeline_failed error (phase1 @ phase2 @ [C_validator]) cost2 env'
                         | Inr validation \<Rightarrow>
                             (let cost3 = cost2 + COST_ESTIMATES C_validator;
                                  totalTime = endTime co - startTime co
                              in \<lparr> outcome = Inr
                                     \<lparr> ai_summary_short = summary_short summaries,
                                       ai_summary_medium = summary_medium summaries,
                                       ai_summary_long = summary_long summaries,
                                       ai_meta_title = meta_title seo,
                                       ai_meta_description = meta_description seo,
                                       ai_seo_keywords = seo_keywords seo,
                                       ai_category = category categoryResult,
                                       ai_category_confidence = confidence categoryResult,
                                       ai_tags = tags,
                                       ai_schema_json = schema,
                                       ai_image_prompt = image_prompt imagePrompt,
                                       ai_embedding = embedding,
                                       ai_quality_score = quality_score validation,
                                       ai_validation_report = validation_report validation,
                                       ai_processing_time_ms = totalTime,
                                       ai_estimated_cost_usd = cost3 \<rparr>,
                                   invoked = phase1 @ phase2 @ [C_validator],
                                   totalCost = cost3,
                                   openai = env' \<rparr>))))"


definition phase1_rejections :: "collaborators \<Rightarrow> string \<Rightarrow> thrown option list" where
  \<comment> \<open>for each Phase 1 capability, in array order, the error it fails with (if it fails)\<close>
  "phase1_rejections co document =
     [rejection (generateSummaries co document),
      rejection (generateSEOMetadata co document),
      rejection (categorizeContent co document),
      rejection (generateTags (JSON_parse co) (tagsAgent_generate co) document)]"


section \<open>HTTP entry point of the pipeline: POST /api/ai/process\<close>

datatype zod_issue = invalid_type | too_small string

definition ProcessMarkdownSchema :: "json option \<Rightarrow> zod_issue list + string" where
  \<comment> \<open>\<open>z.object({ content: z.string().min(10, "Content must be at least 10 characters") })\<close>
      applied to \<open>req.body\<close>; the result is the validated \<open>content\<close>\<close>
  "ProcessMarkdownSchema body =
     (case body of
        Some (JObj kvs) \<Rightarrow>
          (case map_of kvs ''content'' of
             Some (JStr content) \<Rightarrow>
               if length content < 10
               then Inl [too_small ''Content must be at least 10 characters'']
               else Inr content
           | _ \<Rightarrow> Inl [invalid_type])
      | _ \<Rightarrow> Inl [invalid_type])"

datatype http_response =
    Json200 AIPipelineResult
  | Json400 "zod_issue list"
  | Json500 string

text \<open>The handler's response, and the pipeline run it started (\<open>None\<close>: the pipeline was
  never called).\<close>

definition post_process :: "collaborators \<Rightarrow> openai_env \<Rightarrow> json option \<Rightarrow> http_response \<times> Run option" where
  "post_process co env body =
     (case ProcessMarkdownSchema body of
        Inl issues \<Rightarrow> (Json400 issues, None)
      | Inr content \<Rightarrow>
          (let run = processMarkdownWithAI co env content
           in case outcome run of
                Inl error \<Rightarrow>
                  (Json500 (case error of Error m \<Rightarrow> m | NonError \<Rightarrow> ''AI processing failed''),
                   Some run)
              | Inr result \<Rightarrow> (Json200 result, Some run)))"

section \<open>Record creation: createModule\<close>

record CreateModuleInput =
  title :: string
  markdownContent :: string
  owner :: "string option"
  source_url :: "string option"
  source_label :: "string option"

text \<open>The row handed to the \<open>modules\<close> table (fields prefixed with \<open>m_\<close>), and the row the
  table gives back.\<close>

record ModuleData =
  m_title :: string
  m_slug :: string
  m_category :: string
  m_tags :: "string list"
  m_summary_short :: string
  m_summary_medium :: string
  m_summary_long :: string
  m_meta_title :: string
  m_meta_description :: string
  m_seo_keywords :: "string list"
  m_schema_json :: json
  m_image_prompt :: string
  m_quality_score :: number
  m_validation_report :: json
  m_owner :: string
  m_source_url :: "string option"
  m_source_label :: "string option"
  m_latest_version :: int
  m_status :: string

record Module = ModuleData +
  m_id :: string

definition generateSlug :: "string \<Rightarrow> string" where
  "generateSlug t =
     (let dashed = replace_runs (\<lambda>c. c \<notin> set ''abcdefghijklmnopqrstuvwxyz0123456789'')
                     (CHR ''-'') False (toLowerCase t)
      in rev (dropWhile (\<lambda>c. c = CHR ''-'') (rev (dropWhile (\<lambda>c. c = CHR ''-'') dashed))))"

datatype db_op =
    InsertModule ModuleData
  | InsertEmbedding string "json list"
  | InsertVersion string int

text \<open>
  The database client and the two library renderings used in an error message.  The insert
  into \<open>modules\<close> answers with \<open>{ data, error }\<close>; the errors of the other two inserts are
  only logged, so their answers are not modelled.  \<open>db_ops\<close> lists the inserts a call issued.
\<close>

record supabase =
  insert_modules :: "ModuleData \<Rightarrow> Module option \<times> string option"
  Number_toString :: "number \<Rightarrow> string"
  JSON_stringify :: "json \<Rightarrow> string"

record Creation =
  created :: "thrown + (Module \<times> AIPipelineResult)"
  db_ops :: "db_op list"
  pipeline_run :: Run

definition createModule :: "collaborators \<Rightarrow> supabase \<Rightarrow> openai_env \<Rightarrow> CreateModuleInput \<Rightarrow> Creation" where
  "createModule co db env input =
     (let run = processMarkdownWithAI co env (markdownContent input)
      in case outcome run of
           Inl error \<Rightarrow> \<lparr> created = Inl error, db_ops = [], pipeline_run = run \<rparr>
         | Inr aiResult \<Rightarrow>
             if js_lt (ai_quality_score aiResult) (Fin 70)
             then \<lparr> created = Inl (Error (''Module quality score (''
                                   @ Number_toString db (ai_quality_score aiResult)
                                   @ '') is below threshold (70). '' @ ''Validation feedback: ''
                                   @ JSON_stringify db (ai_validation_report aiResult))),
                    db_ops = [], pipeline_run = run \<rparr>
             else
               (let slug = generateSlug (title input);
                    moduleData =
                      \<lparr> m_title = title input,
                        m_slug = slug,
                        m_category = ai_category aiResult,
                        m_tags = ai_tags aiResult,
                        m_summary_short = ai_summary_short aiResult,
                        m_summary_medium = ai_summary_medium aiResult,
                        m_summary_long = ai_summary_long aiResult,
                        m_meta_title = ai_meta_title aiResult,
                        m_meta_description = ai_meta_description aiResult,
                        m_seo_keywords = map trim (split_comma (ai_seo_keywords aiResult)),
                        m_schema_json = ai_schema_json aiResult,
                        m_image_prompt = ai_image_prompt aiResult,
                        m_quality_score = ai_quality_score aiResult,
                        m_validation_report = ai_validation_report aiResult,
                        m_owner = (case owner input of
                                     None \<Rightarrow> ''Keith Armstrong''
                                   | Some name \<Rightarrow> if name = [] then ''Keith Armstrong'' else name),
                        m_source_url = source_url input,
                        m_source_label = source_label input,
                        m_latest_version = 1,
                        m_status = ''draft'' \<rparr>
                in case insert_modules db moduleData of
                     (Some module', None) \<Rightarrow>
                       \<lparr> created = Inr (module', aiResult),
                         db_ops = [InsertModule moduleData,
                                   InsertEmbedding (m_id module') (ai_embedding aiResult),
                                   InsertVersion (m_id module') 1],
                         pipeline_run = run \<rparr>
                   | (_, moduleError) \<Rightarrow>
                       \<lparr> created = Inl (Error (''Failed to create module: ''
                                          @ (case moduleError of
                                               None \<Rightarrow> ''undefined''
                                             | Some message \<Rightarrow> message))),
                         db_ops = [InsertModule moduleData],
                         pipeline_run = run \<rparr>))"


section \<open>Similarity search: search_modules_by_embedding and semanticSearch\<close>

text \<open>
  The SQL function of migration 004 over the two tables it reads.  \<open>cosine_distance\<close> is pgvector's
  cosine distance operator \<open><=>\<close>, taken as a real-valued function; an omitted argument
  (\<open>None\<close>) takes the declared default.  A negative \<open>LIMIT\<close> is an error in PostgreSQL.
\<close>

record EmbeddingRow =
  module_id :: string
  embedding :: "real list"

record SearchRow =
  found :: Module
  similarity :: real


record SemanticSearchInput =
  query :: string
  limit :: "number option"
  threshold :: "number option"







section \<open>Sample inputs\<close>

text \<open>Concrete collaborators and inputs at which the properties below are evaluated.\<close>

definition sample_metadata :: Metadata where
  "sample_metadata =
     \<lparr> md_summaries = \<lparr> summary_short = ''s'', summary_medium = ''sm'', summary_long = ''sml'' \<rparr>,
       md_seo = \<lparr> meta_title = ''t'', meta_description = ''d'', seo_keywords = ''a,b,c'' \<rparr>,
       md_category = \<lparr> category = ''Development'', confidence = Fin 1, reasoning = ''r'' \<rparr>,
       md_tags = [''rest-api'', ''typescript'', ''authentication''],
       md_schema = JObj [(''@context'', JStr ''https://schema.org''), (''@type'', JStr ''Article'')],
       md_imagePrompt = \<lparr> image_prompt = ''p'', style_notes = ''n'' \<rparr> \<rparr>"

definition parse_as :: "json \<Rightarrow> string \<Rightarrow> thrown + json" where
  \<comment> \<open>a parser that reads every text as the given value\<close>
  "parse_as v text = Inr v"



definition duplicate_tags_reply :: json where
  \<comment> \<open>the object \<open>{"tags": ["API", "api ", "api"]}\<close>\<close>
  "duplicate_tags_reply = JObj [(''tags'', JArr [JStr ''API'', JStr ''api '', JStr ''api''])]"

definition is_finite_number :: "json \<Rightarrow> bool" where
  \<comment> \<open>\<open>typeof v === "number" && Number.isFinite(v)\<close>\<close>
  "is_finite_number v = (case v of JNum _ \<Rightarrow> True | _ \<Rightarrow> False)"

definition sample_env :: openai_env where
  "sample_env = \<lparr> openaiClient = False, OPENAI_API_KEY = Some ''sk-test'' \<rparr>"


definition sample_reply :: json where
  \<comment> \<open>one object that serves as the reply of the tags agent and of the validator\<close>
  "sample_reply =
     JObj [(''tags'', JArr [JStr ''rest-api'', JStr ''typescript'', JStr ''authentication'']),
           (''quality_score'', JNum 85), (''passed'', JBool True),
           (''validation_report'', JObj [])]"

definition sample_collaborators :: collaborators where
  \<comment> \<open>every capability answers well, whatever the document\<close>
  "sample_collaborators =
     \<lparr> generateSummaries = (\<lambda>_. Inr (md_summaries sample_metadata)),
       generateSEOMetadata = (\<lambda>_. Inr (md_seo sample_metadata)),
       categorizeContent = (\<lambda>_. Inr (md_category sample_metadata)),
       tagsAgent_generate = (\<lambda>_. Replied (Some ''{}'')),
       generateSchemaOrgData = (\<lambda>_. Inr (md_schema sample_metadata)),
       generateImagePrompt = (\<lambda>_. Inr (md_imagePrompt sample_metadata)),
       embeddings_create = (\<lambda>_. Created [Some (JArr (replicate 3072 (JNum 0)))]),
       validatorAgent_generate = (\<lambda>_ _. Replied (Some ''{}'')),
       JSON_parse = parse_as sample_reply,
       phase1_settled = [],
       phase2_settled = [],
       startTime = 0,
       endTime = 1500 \<rparr>"

definition failing_tags_collaborators :: collaborators where
  \<comment> \<open>as \<open>sample_collaborators\<close>, but the tags agent replies with prose and no JSON object\<close>
  "failing_tags_collaborators =
     sample_collaborators\<lparr> tagsAgent_generate := (\<lambda>_. Replied (Some ''no tags, sorry'')) \<rparr>"


definition low_score_collaborators :: collaborators where
  \<comment> \<open>as \<open>sample_collaborators\<close>, but the validator scores the metadata 50\<close>
  "low_score_collaborators =
     sample_collaborators\<lparr> JSON_parse := parse_as
       (JObj [(''tags'', JArr [JStr ''rest-api'', JStr ''typescript'', JStr ''authentication'']),
              (''quality_score'', JNum 50), (''passed'', JBool True),
              (''validation_report'', JObj [])]) \<rparr>"

definition sample_supabase :: supabase where
  \<comment> \<open>a database that accepts every row\<close>
  "sample_supabase =
     \<lparr> insert_modules = (\<lambda>row. (Some (ModuleData.extend row (Module.fields ''id-1'')), None)),
       Number_toString = (\<lambda>_. ''50''),
       JSON_stringify = (\<lambda>_. ''{}'') \<rparr>"

definition sample_input :: CreateModuleInput where
  "sample_input =
     \<lparr> title = ''Building REST APIs'', markdownContent = ''# Building REST APIs'',
       owner = None, source_url = None, source_label = None \<rparr>"








section \<open>Properties\<close>

lemma clamp_range:
  "q \<noteq> NaN \<Longrightarrow> \<exists>x. Math_min (Math_max q (Fin 0)) (Fin 100) = Fin x \<and> 0 \<le> x \<and> x \<le> 100"
  by (cases q) (auto simp: Math_min_def Math_max_def)

lemma as_number_not_NaN: "as_number v = Some q \<Longrightarrow> q \<noteq> NaN"
  by (auto simp: as_number_def split: option.splits json.splits)

lemma validateMetadata_try_result:
  assumes "validateMetadata_try parse generate content metadata = Inr r"
  shows "\<exists>q. q \<noteq> NaN \<and> quality_score r = Math_min (Math_max q (Fin 0)) (Fin 100)
            \<and> passed r = js_ge (quality_score r) (Fin 70)"
  using assms
  by (auto simp: validateMetadata_try_def Let_def dest: as_number_not_NaN
           split: sum.splits option.splits if_splits prod.splits)

lemma validateMetadata_result:
  assumes "validateMetadata parse generate content metadata = Inr r"
  shows "\<exists>x. quality_score r = Fin x \<and> 0 \<le> x \<and> x \<le> 100 \<and> passed r = (70 \<le> x)"
proof -
  from assms have "validateMetadata_try parse generate content metadata = Inr r"
    by (auto simp: validateMetadata_def catch_wrap_def split: sum.splits)
  then obtain q where q: "q \<noteq> NaN"
      "quality_score r = Math_min (Math_max q (Fin 0)) (Fin 100)"
      "passed r = js_ge (quality_score r) (Fin 70)"
    using validateMetadata_try_result by blast
  from clamp_range [OF q(1)] obtain x where
    x: "Math_min (Math_max q (Fin 0)) (Fin 100) = Fin x" "0 \<le> x" "x \<le> 100" by blast
  with q show ?thesis by (auto simp: js_ge_def)
qed

subsection \<open>C1: the quality gate clamps the score and recomputes the verdict\<close>



subsection \<open>C8: the cost estimate\<close>

text \<open>
  C8.  For every document count \<open>n\<close>, \<open>estimateProcessingCost\<close> returns a total equal to the
  per-document cost times \<open>n\<close>; the per-document cost is the sum of the eight constants of
  \<open>COST_ESTIMATES\<close>, and the breakdown is that table.  The function reads nothing but its
  argument and the table.
\<close>

theorem estimateProcessingCost_total:
  "CostEstimate.total (estimateProcessingCost (of_nat n))
     = perModule (estimateProcessingCost (of_nat n)) * of_nat n
   \<and> perModule (estimateProcessingCost (of_nat n))
       = COST_ESTIMATES C_summary + COST_ESTIMATES C_seo + COST_ESTIMATES C_category
         + COST_ESTIMATES C_tags + COST_ESTIMATES C_schema + COST_ESTIMATES C_imagePrompt
         + COST_ESTIMATES C_embeddings + COST_ESTIMATES C_validator
   \<and> perModule (estimateProcessingCost (of_nat n)) = 0.072
   \<and> breakdown (estimateProcessingCost (of_nat n)) = COST_ESTIMATES"
  by (simp add: estimateProcessingCost_def COST_ESTIMATES_keys_def Let_def)

subsection \<open>C7: cosine similarity\<close>













subsection \<open>C3: the tag list\<close>

lemma generateTags_shape:
  assumes "generateTags parse generate c = Inr tags"
  shows "3 \<le> length tags \<and> length tags \<le> 5 \<and> (\<forall>t\<in>set tags. tag_format t)"
proof -
  from assms have t: "generateTags_try parse generate c = Inr tags"
    by (auto simp: generateTags_def catch_wrap_def split: sum.splits)
  then obtain lowered where
    tags: "tags = take 5 (filter (\<lambda>tag. length tag > 0 \<and> tag_format tag) lowered)"
    and n: "\<not> length (filter (\<lambda>tag. length tag > 0 \<and> tag_format tag) lowered) < 3"
    by (auto simp: generateTags_try_def Let_def
             split: sum.splits option.splits json.splits if_splits)
  from tags n show ?thesis by (auto dest: in_set_takeD)
qed

text \<open>
  C3.  A returned tag list has 3 to 5 entries and every entry matches \<open>^[a-z0-9-]+$\<close>
  (\<open>generateTags_shape\<close>), but nothing removes duplicates: on the reply
  \<open>{"tags": ["API", "api ", "api"]}\<close> the three entries normalise to the same tag and
  \<open>generateTags\<close> returns \<open>["api", "api", "api"]\<close>.
\<close>

theorem generateTags_returns_duplicates:
  "generateTags (parse_as duplicate_tags_reply) (\<lambda>_. Replied (Some ''{}'')) ''# Doc''
     = Inr [''api'', ''api'', ''api'']
   \<and> \<not> distinct [''api'', ''api'', ''api'']"
  by (simp add: generateTags_def generateTags_try_def catch_wrap_def extract_json_def
        match_object_def parse_as_def duplicate_tags_reply_def field_def tag_format_def
        toLowerCase_def toLowerCase_char_def upper_case_def lower_case_def trim_def is_space_def)

subsection \<open>C5: the embedding vector\<close>

lemma str_includes_subset: "str_includes s pat \<Longrightarrow> set pat \<subseteq> set s"
proof -
  assume "str_includes s pat"
  then obtain i where "take (length pat) (drop i s) = pat"
    by (auto simp: str_includes_def list_ex_iff)
  then have "set pat = set (take (length pat) (drop i s))" by simp
  also have "\<dots> \<subseteq> set (drop i s)" by (rule set_take_subset)
  also have "\<dots> \<subseteq> set s" by (rule set_drop_subset)
  finally show ?thesis .
qed

lemma missing_char_not_included:
  "c \<in> set pat \<Longrightarrow> c \<notin> set s \<Longrightarrow> \<not> str_includes s pat"
  using str_includes_subset by blast

lemma digit_char_digits: "d < 10 \<Longrightarrow> digit_char d \<in> set ''0123456789''"
  unfolding digit_char_def by (rule nth_mem) simp

lemma set_show_nat: "set (show_nat n) \<subseteq> set ''0123456789''"
proof (induction n rule: show_nat.induct)
  case (1 n)
  show ?case
  proof (cases "n < 10")
    case True
    then show ?thesis using digit_char_digits [of n] by (subst show_nat.simps) simp
  next
    case False
    have "n mod 10 < 10" by simp
    then have "digit_char (n mod 10) \<in> set ''0123456789''" by (rule digit_char_digits)
    with False 1 show ?thesis by (subst show_nat.simps) simp
  qed
qed

lemma show_nat_digits_only: "c \<notin> set ''0123456789'' \<Longrightarrow> c \<notin> set (show_nat n)"
  using set_show_nat by blast

lemma dimension_message_kept:
  "embeddings_catch (Error (''Unexpected embedding dimensions: '' @ show_nat n @ '' (expected 3072)''))
     = Error (''Failed to generate embeddings: '' @ ''Unexpected embedding dimensions: ''
              @ show_nat n @ '' (expected 3072)'')"
proof -
  let ?m = "''Unexpected embedding dimensions: '' @ show_nat n @ '' (expected 3072)''"
  have "CHR ''A'' \<notin> set (show_nat n)" by (rule show_nat_digits_only) simp
  then have "CHR ''A'' \<notin> set ?m" by simp
  then have a: "\<not> str_includes ?m ''API key''"
    by (rule missing_char_not_included [rotated]) simp
  have "CHR ''r'' \<notin> set (show_nat n)" by (rule show_nat_digits_only) simp
  then have "CHR ''r'' \<notin> set ?m" by simp
  then have b: "\<not> str_includes ?m ''rate limit''"
    by (rule missing_char_not_included [rotated]) simp
  have "CHR ''q'' \<notin> set (show_nat n)" by (rule show_nat_digits_only) simp
  then have "CHR ''q'' \<notin> set ?m" by simp
  then have c: "\<not> str_includes ?m ''quota''"
    by (rule missing_char_not_included [rotated]) simp
  from a b c show ?thesis by (simp only: embeddings_catch_def thrown.case if_False)
qed

lemma generateEmbeddings_length:
  "fst (generateEmbeddings env create c) = Inr e \<Longrightarrow> length e = 3072"
  by (auto simp: generateEmbeddings_def Let_def
           split: sum.splits if_splits embeddings_reply.splits option.splits json.splits list.splits)

lemma generateEmbeddings_dimension_mismatch:
  assumes "getOpenAIClient env = Inr env'"
    and "take 30000 (trim (replace_runs is_space (CHR '' '') False c)) \<noteq> []"
    and "create (take 30000 (trim (replace_runs is_space (CHR '' '') False c)))
           = Created (Some (JArr v) # rest)"
    and "length v \<noteq> 3072"
  shows "fst (generateEmbeddings env create c)
           = Inl (Error (''Failed to generate embeddings: '' @ ''Unexpected embedding dimensions: ''
                         @ show_nat (length v) @ '' (expected 3072)''))"
proof -
  define m where
    "m = ''Unexpected embedding dimensions: '' @ show_nat (length v) @ '' (expected 3072)''"
  have thrown: "fst (generateEmbeddings env create c) = Inl (embeddings_catch (Error m))"
    using assms unfolding m_def by (simp add: generateEmbeddings_def Let_def)
  have "embeddings_catch (Error m) = Error (''Failed to generate embeddings: '' @ m)"
    unfolding m_def by (rule dimension_message_kept)
  with thrown show ?thesis unfolding m_def by simp
qed

text \<open>
  C5.  A returned embedding has exactly 3072 components (\<open>generateEmbeddings_length\<close>), and
  an array of any other length is rejected with the dimension error
  (\<open>generateEmbeddings_dimension_mismatch\<close>), but the components themselves are never
  inspected: an array of 3072 entries that starts with \<open>Infinity\<close> (the value of the JSON
  literal \<open>1e999\<close>), or with \<open>null\<close>, is returned as it came.
\<close>

theorem generateEmbeddings_returns_unchecked_components:
  "fst (generateEmbeddings sample_env
          (\<lambda>_. Created [Some (JArr (JPosInf # replicate 3071 (JNum 0)))]) ''# Doc'')
     = Inr (JPosInf # replicate 3071 (JNum 0))
   \<and> \<not> list_all is_finite_number (JPosInf # replicate 3071 (JNum 0))
   \<and> fst (generateEmbeddings sample_env
          (\<lambda>_. Created [Some (JArr (JNull # replicate 3071 (JNum 0)))]) ''# Doc'')
     = Inr (JNull # replicate 3071 (JNum 0))
   \<and> \<not> list_all is_finite_number (JNull # replicate 3071 (JNum 0))"
  by (simp add: generateEmbeddings_def getOpenAIClient_def sample_env_def trim_def is_space_def
        is_finite_number_def)

subsection \<open>C4: a Phase 1 failure ends the run\<close>

lemma first_rejection_found:
  assumes "\<exists>r\<in>set rs. r \<noteq> None"
  shows "\<exists>e. first_rejection settled rs = Some e \<and> Some e \<in> set rs"
proof -
  let ?P = "\<lambda>i. i < length rs \<and> rs ! i \<noteq> None"
  from assms obtain i where i: "i < length rs" "rs ! i \<noteq> None"
    by (auto simp: in_set_conv_nth)
  then have "i \<in> set (filter ?P (settled @ [0..<length rs]))" by simp
  then have "filter ?P (settled @ [0..<length rs]) \<noteq> []" by (metis empty_iff empty_set)
  then obtain j js where f: "filter ?P (settled @ [0..<length rs]) = j # js"
    by (auto simp only: neq_Nil_conv)
  then have "j \<in> set (filter ?P (settled @ [0..<length rs]))" by simp
  then have j: "j < length rs" "rs ! j \<noteq> None" by auto
  then obtain e where e: "rs ! j = Some e" by auto
  with j have "Some e \<in> set rs" by (metis nth_mem)
  with f e show ?thesis by (simp add: first_rejection_def)
qed

lemma Promise_all4_rejects:
  assumes "\<exists>r\<in>set [rejection a, rejection b, rejection c, rejection d]. r \<noteq> None"
  shows "\<exists>e. first_rejection settled [rejection a, rejection b, rejection c, rejection d] = Some e
            \<and> Promise_all4 settled a b c d = Inl e"
proof -
  from first_rejection_found [OF assms] obtain e where
    e: "first_rejection settled [rejection a, rejection b, rejection c, rejection d] = Some e"
    by blast
  from assms have "\<not> (\<exists>w x y z. a = Inr w \<and> b = Inr x \<and> c = Inr y \<and> d = Inr z)"
    by (auto simp: rejection_def)
  with e have "Promise_all4 settled a b c d = Inl e"
    by (auto simp: Promise_all4_def split: sum.splits)
  with e show ?thesis by blast
qed

lemma phase1_failure:
  assumes "\<exists>r\<in>set (phase1_rejections co c). r \<noteq> None"
  shows "\<exists>e. first_rejection (phase1_settled co) (phase1_rejections co c) = Some e
            \<and> Some e \<in> set (phase1_rejections co c)
            \<and> processMarkdownWithAI co env c
                = pipeline_failed e [C_summary, C_seo, C_category, C_tags] 0 env"
proof -
  from assms Promise_all4_rejects [of "generateSummaries co c" "generateSEOMetadata co c"
      "categorizeContent co c" "generateTags (JSON_parse co) (tagsAgent_generate co) c"
      "phase1_settled co"]
  obtain e where
    e: "first_rejection (phase1_settled co) (phase1_rejections co c) = Some e"
    and p: "Promise_all4 (phase1_settled co) (generateSummaries co c) (generateSEOMetadata co c)
              (categorizeContent co c) (generateTags (JSON_parse co) (tagsAgent_generate co) c)
            = Inl e"
    unfolding phase1_rejections_def by blast
  from first_rejection_found [OF assms, of "phase1_settled co"] e
  have "Some e \<in> set (phase1_rejections co c)" by simp
  moreover from p have "processMarkdownWithAI co env c
                = pipeline_failed e [C_summary, C_seo, C_category, C_tags] 0 env"
    by (simp add: processMarkdownWithAI_def Let_def)
  ultimately show ?thesis using e by blast
qed

text \<open>
  C4.  If at least one of the four Phase 1 capabilities fails, the run ends with the error of
  a failed Phase 1 capability (the one whose promise rejects first), wrapped by the
  orchestrator's \<open>catch\<close>; the only agent functions called are the four of Phase 1, so no
  Phase 2 capability and no validator is invoked, and no cost has been added.
\<close>

theorem phase1_failure_aborts_run:
  assumes "\<exists>r\<in>set (phase1_rejections co c). r \<noteq> None"
  shows "\<exists>e. first_rejection (phase1_settled co) (phase1_rejections co c) = Some e
            \<and> Some e \<in> set (phase1_rejections co c)
            \<and> outcome (processMarkdownWithAI co env c)
                = Inl (Error (''AI Pipeline failed: '' @ error_message e))
            \<and> invoked (processMarkdownWithAI co env c) = [C_summary, C_seo, C_category, C_tags]
            \<and> totalCost (processMarkdownWithAI co env c) = 0"
  using phase1_failure [OF assms, of env] by (auto simp: pipeline_failed_def)

lemma failing_tags:
  "generateTags (parse_as sample_reply) (\<lambda>_. Replied (Some ''no tags, sorry'')) c
     = Inl (Error ''Failed to generate tags: No valid JSON found in response'')"
  by (simp add: generateTags_def generateTags_try_def catch_wrap_def extract_json_def
        match_object_def error_message_def)

lemma failing_tags_rejections:
  "phase1_rejections failing_tags_collaborators c
     = [None, None, None,
        Some (Error ''Failed to generate tags: No valid JSON found in response'')]"
  by (simp add: phase1_rejections_def failing_tags_collaborators_def sample_collaborators_def
        rejection_def failing_tags)

theorem phase1_failure_aborts_run_witness:
  "(\<exists>r\<in>set (phase1_rejections failing_tags_collaborators ''# Doc''). r \<noteq> None)
   \<and> outcome (processMarkdownWithAI failing_tags_collaborators sample_env ''# Doc'')
       = Inl (Error ''AI Pipeline failed: Failed to generate tags: No valid JSON found in response'')
   \<and> invoked (processMarkdownWithAI failing_tags_collaborators sample_env ''# Doc'')
       = [C_summary, C_seo, C_category, C_tags]
   \<and> totalCost (processMarkdownWithAI failing_tags_collaborators sample_env ''# Doc'') = 0"
proof -
  have h: "\<exists>r\<in>set (phase1_rejections failing_tags_collaborators ''# Doc''). r \<noteq> None"
    by (simp add: failing_tags_rejections)
  from phase1_failure_aborts_run [OF h, of sample_env] obtain e where
    e: "Some e \<in> set (phase1_rejections failing_tags_collaborators ''# Doc'')"
    and r: "outcome (processMarkdownWithAI failing_tags_collaborators sample_env ''# Doc'')
              = Inl (Error (''AI Pipeline failed: '' @ error_message e))"
       "invoked (processMarkdownWithAI failing_tags_collaborators sample_env ''# Doc'')
              = [C_summary, C_seo, C_category, C_tags]"
       "totalCost (processMarkdownWithAI failing_tags_collaborators sample_env ''# Doc'') = 0"
    by blast
  from e have "e = Error ''Failed to generate tags: No valid JSON found in response''"
    by (simp add: failing_tags_rejections)
  with r h show ?thesis by (simp add: error_message_def)
qed

subsection \<open>C2: short documents\<close>

lemma empty_message_kept:
  "embeddings_catch (Error ''Content is empty after cleaning'')
     = Error ''Failed to generate embeddings: Content is empty after cleaning''"
proof -
  have a: "\<not> str_includes ''Content is empty after cleaning'' ''API key''" by code_simp
  have b: "\<not> str_includes ''Content is empty after cleaning'' ''rate limit''" by code_simp
  have c: "\<not> str_includes ''Content is empty after cleaning'' ''quota''" by code_simp
  from a b c show ?thesis by (simp add: embeddings_catch_def)
qed

lemma sample_tags:
  "generateTags (parse_as sample_reply) (\<lambda>_. Replied (Some ''{}'')) c
     = Inr [''rest-api'', ''typescript'', ''authentication'']"
  by (simp add: generateTags_def generateTags_try_def catch_wrap_def extract_json_def
        match_object_def parse_as_def sample_reply_def field_def tag_format_def
        toLowerCase_def toLowerCase_char_def upper_case_def lower_case_def trim_def is_space_def)

lemma empty_embeddings:
  "generateEmbeddings sample_env create [] =
     (Inl (Error ''Failed to generate embeddings: Content is empty after cleaning''),
      sample_env\<lparr>openaiClient := True\<rparr>)"
  using empty_message_kept
  by (simp add: generateEmbeddings_def getOpenAIClient_def sample_env_def trim_def)

text \<open>
  C2 as stated fails: \<open>processMarkdownWithAI\<close> has no check of the document's length.  On the
  empty document it calls the four Phase 1 capabilities, adds their cost, calls the three of
  Phase 2, and fails only because \<open>generateEmbeddings\<close> finds nothing to embed.
\<close>

theorem processMarkdownWithAI_empty_document_counterexample:
  "invoked (processMarkdownWithAI sample_collaborators sample_env [])
     = [C_summary, C_seo, C_category, C_tags, C_schema, C_imagePrompt, C_embeddings]
   \<and> totalCost (processMarkdownWithAI sample_collaborators sample_env []) = 0.009
   \<and> outcome (processMarkdownWithAI sample_collaborators sample_env [])
     = Inl (Error ''AI Pipeline failed: Failed to generate embeddings: Content is empty after cleaning'')"
  by (simp add: processMarkdownWithAI_def sample_collaborators_def sample_tags empty_embeddings
        Promise_all4_def Promise_all3_def first_rejection_def rejection_def pipeline_failed_def
        error_message_def Let_def)

text \<open>
  C2, amended.  For a document shorter than 10 characters the HTTP entry point of the
  pipeline, POST /api/ai/process, answers with the validation error "Content must be at least
  10 characters" before \<open>processMarkdownWithAI\<close> is called: no capability is invoked and no
  cost is accrued.  \<open>processMarkdownWithAI\<close> itself accepts every text and calls the four
  Phase 1 capabilities on it.
\<close>

theorem short_document_rejected_by_route:
  assumes "map_of kvs ''content'' = Some (JStr content)" and "length content < 10"
  shows "post_process co env (Some (JObj kvs))
           = (Json400 [too_small ''Content must be at least 10 characters''], None)
         \<and> take 4 (invoked (processMarkdownWithAI co env content))
           = [C_summary, C_seo, C_category, C_tags]"
  using assms
  by (simp add: post_process_def ProcessMarkdownSchema_def processMarkdownWithAI_def Let_def
        pipeline_failed_def split: sum.splits prod.splits)

theorem short_document_rejected_by_route_witness:
  "map_of [(''content'', JStr [])] ''content'' = Some (JStr [])
   \<and> length ([] :: string) < 10
   \<and> post_process sample_collaborators sample_env (Some (JObj [(''content'', JStr [])]))
       = (Json400 [too_small ''Content must be at least 10 characters''], None)
   \<and> take 4 (invoked (processMarkdownWithAI sample_collaborators sample_env []))
       = [C_summary, C_seo, C_category, C_tags]"
  using short_document_rejected_by_route
    [of "[(''content'', JStr [])]" "[]" sample_collaborators sample_env]
  by simp

subsection \<open>C9: only passing results are persisted\<close>

lemma pipeline_score:
  assumes "outcome (processMarkdownWithAI co env c) = Inr r"
  shows "\<exists>x. ai_quality_score r = Fin x \<and> 0 \<le> x \<and> x \<le> 100"
proof -
  from assms obtain md validation where
    v: "validateMetadata (JSON_parse co) (validatorAgent_generate co) c md = Inr validation"
    and q: "ai_quality_score r = quality_score validation"
    by (auto simp: processMarkdownWithAI_def Let_def pipeline_failed_def
             split: sum.splits prod.splits)
  from validateMetadata_result [OF v] q show ?thesis by auto
qed

lemma createModule_low:
  assumes "outcome (processMarkdownWithAI co env (markdownContent input)) = Inr aiResult"
    and "js_lt (ai_quality_score aiResult) (Fin 70)"
  shows "db_ops (createModule co db env input) = []
       \<and> created (createModule co db env input)
           = Inl (Error (''Module quality score ('' @ Number_toString db (ai_quality_score aiResult)
                   @ '') is below threshold (70). '' @ ''Validation feedback: ''
                   @ JSON_stringify db (ai_validation_report aiResult)))"
  using assms by (simp add: createModule_def Let_def)

lemma createModule_inserted:
  assumes "InsertModule d \<in> set (db_ops (createModule co db env input))"
  shows "\<exists>x. m_quality_score d = Fin x \<and> 70 \<le> x \<and> x \<le> 100"
proof -
  from assms obtain aiResult where
    r: "outcome (processMarkdownWithAI co env (markdownContent input)) = Inr aiResult"
    and n: "\<not> js_lt (ai_quality_score aiResult) (Fin 70)"
    and d: "m_quality_score d = ai_quality_score aiResult"
    by (auto simp: createModule_def Let_def split: sum.splits if_splits prod.splits option.splits)
  from pipeline_score [OF r] obtain x where "ai_quality_score aiResult = Fin x" "0 \<le> x" "x \<le> 100"
    by blast
  with n d show ?thesis by auto
qed

text \<open>
  C9.  When the pipeline's result has a \<open>quality_score\<close> below 70, \<open>createModule\<close> throws
  before it issues any insert; hence every row it hands to the \<open>modules\<close> table carries a
  score of at least 70.
\<close>

theorem createModule_persists_only_passing_scores:
  "(outcome (processMarkdownWithAI co env (markdownContent input)) = Inr aiResult
      \<and> js_lt (ai_quality_score aiResult) (Fin 70)
     \<longrightarrow> db_ops (createModule co db env input) = []
         \<and> created (createModule co db env input)
             = Inl (Error (''Module quality score (''
                     @ Number_toString db (ai_quality_score aiResult)
                     @ '') is below threshold (70). '' @ ''Validation feedback: ''
                     @ JSON_stringify db (ai_validation_report aiResult))))
   \<and> (InsertModule d \<in> set (db_ops (createModule co db env input))
     \<longrightarrow> (\<exists>x. m_quality_score d = Fin x \<and> 70 \<le> x))"
  using createModule_low [of co env input aiResult db] createModule_inserted [of d co db env input]
  by blast

lemma sample_embedded:
  "generateEmbeddings sample_env (\<lambda>_. Created [Some (JArr (replicate 3072 (JNum 0)))])
       ''# Building REST APIs''
     = (Inr (replicate 3072 (JNum 0)), sample_env\<lparr>openaiClient := True\<rparr>)"
  by (simp add: generateEmbeddings_def getOpenAIClient_def sample_env_def trim_def is_space_def)

lemma low_tags:
  "generateTags (JSON_parse low_score_collaborators) (\<lambda>_. Replied (Some ''{}'')) c
     = Inr [''rest-api'', ''typescript'', ''authentication'']"
  by (simp add: low_score_collaborators_def generateTags_def generateTags_try_def
        catch_wrap_def extract_json_def match_object_def parse_as_def field_def tag_format_def
        toLowerCase_def toLowerCase_char_def upper_case_def lower_case_def trim_def is_space_def)

lemma low_validation:
  "validateMetadata (JSON_parse low_score_collaborators) (\<lambda>_ _. Replied (Some ''{}'')) c md
     = Inr \<lparr> quality_score = Fin 50, passed = False, validation_report = JObj [] \<rparr>"
  by (simp add: low_score_collaborators_def validateMetadata_def validateMetadata_try_def
        catch_wrap_def extract_json_def match_object_def parse_as_def field_def as_number_def
        is_boolean_def truthy_def Math_max_def Math_min_def js_ge_def)

lemma low_score_run:
  "\<exists>r. outcome (processMarkdownWithAI low_score_collaborators sample_env
                   (markdownContent sample_input)) = Inr r
       \<and> ai_quality_score r = Fin 50"
  using low_tags low_validation
  by (simp add: sample_input_def processMarkdownWithAI_def low_score_collaborators_def
        sample_collaborators_def sample_embedded Promise_all4_def Promise_all3_def Let_def)

lemma sample_validation:
  "validateMetadata (parse_as sample_reply) (\<lambda>_ _. Replied (Some ''{}'')) c md
     = Inr \<lparr> quality_score = Fin 85, passed = True, validation_report = JObj [] \<rparr>"
  by (simp add: sample_reply_def validateMetadata_def validateMetadata_try_def
        catch_wrap_def extract_json_def match_object_def parse_as_def field_def as_number_def
        is_boolean_def truthy_def Math_max_def Math_min_def js_ge_def)

lemma sample_creation:
  "\<exists>d rest. db_ops (createModule sample_collaborators sample_supabase sample_env sample_input)
              = InsertModule d # rest"
  by (simp add: createModule_def sample_input_def sample_supabase_def processMarkdownWithAI_def
        sample_collaborators_def sample_tags sample_validation sample_embedded
        Promise_all4_def Promise_all3_def Let_def)

theorem createModule_persists_only_passing_scores_witness:
  "(\<exists>r. outcome (processMarkdownWithAI low_score_collaborators sample_env
                    (markdownContent sample_input)) = Inr r
        \<and> js_lt (ai_quality_score r) (Fin 70))
   \<and> db_ops (createModule low_score_collaborators sample_supabase sample_env sample_input) = []
   \<and> (\<exists>d. InsertModule d
            \<in> set (db_ops (createModule sample_collaborators sample_supabase sample_env sample_input))
          \<and> (\<exists>x. m_quality_score d = Fin x \<and> 70 \<le> x))"
proof -
  from low_score_run obtain r where
    r: "outcome (processMarkdownWithAI low_score_collaborators sample_env
                   (markdownContent sample_input)) = Inr r"
       "js_lt (ai_quality_score r) (Fin 70)"
    by auto
  from sample_creation obtain d rest where
    "db_ops (createModule sample_collaborators sample_supabase sample_env sample_input)
       = InsertModule d # rest"
    by blast
  then have
    d: "InsertModule d
          \<in> set (db_ops (createModule sample_collaborators sample_supabase sample_env sample_input))"
    by simp
  from r createModule_persists_only_passing_scores
         [where co = low_score_collaborators and env = sample_env and input = sample_input
            and aiResult = r and db = sample_supabase]
  have "db_ops (createModule low_score_collaborators sample_supabase sample_env sample_input) = []"
    by blast
  moreover from d createModule_persists_only_passing_scores
         [where co = sample_collaborators and env = sample_env and input = sample_input
            and db = sample_supabase and d = d]
  have "\<exists>x. m_quality_score d = Fin x \<and> 70 \<le> x" by blast
  ultimately show ?thesis using r d by blast
qed

subsection \<open>C10: falsy search parameters\<close>




subsection \<open>C6: the similarity search\<close>






end
